theory Spec2Isabelle
  imports Complex_Main
begin

section \<open>JavaScript values\<close>

text \<open>
  The values that flow through \<^verbatim>\<open>usePersistedQueries.js\<close> and the \<^verbatim>\<open>Text\<close> component
  are JSON-like: GraphQL payloads, error messages, React props. Finite numbers are
  rationals (every double is one; \<^verbatim>\<open>-0\<close> and \<^verbatim>\<open>0\<close> are not told apart by any test
  of the code), \<^verbatim>\<open>NaN\<close> and the two infinities are constructors of their own. An object
  is the list of its own properties, each key listed once. Elements of a string stand
  for its code units.
\<close>

datatype js =
    JUndefined
  | JNull
  | JBool bool
  | JNum rat
  | JNaN
  | JInf bool
  | JStr string
  | JArr "js list"
  | JObj "(string \<times> js) list"

text \<open>\<^verbatim>\<open>if (v)\<close>, \<^verbatim>\<open>a || b\<close>: the falsy values are \<^verbatim>\<open>undefined\<close>, \<^verbatim>\<open>null\<close>, \<^verbatim>\<open>false\<close>,
  \<^verbatim>\<open>0\<close>, \<^verbatim>\<open>NaN\<close> and the empty string.\<close>

fun truthy :: "js \<Rightarrow> bool" where
  "truthy JUndefined = False"
| "truthy JNull = False"
| "truthy (JBool b) = b"
| "truthy (JNum n) = (n \<noteq> 0)"
| "truthy JNaN = False"
| "truthy (JInf _) = True"
| "truthy (JStr s) = (s \<noteq> [])"
| "truthy (JArr _) = True"
| "truthy (JObj _) = True"

text \<open>
  \<^verbatim>\<open>v?.name\<close>, optional chaining: \<^verbatim>\<open>undefined\<close> on \<^verbatim>\<open>undefined\<close> and \<^verbatim>\<open>null\<close>, the
  property otherwise. Arrays and strings have \<^verbatim>\<open>length\<close>; none of the other names the
  code reads (\<^verbatim>\<open>data\<close>, \<^verbatim>\<open>message\<close>, \<^verbatim>\<open>pageList\<close>, \<^verbatim>\<open>articleList\<close>,
  \<^verbatim>\<open>articlePaginated\<close>, \<^verbatim>\<open>items\<close>, \<^verbatim>\<open>edges\<close>, \<^verbatim>\<open>_references\<close>, \<^verbatim>\<open>plaintext\<close>,
  \<^verbatim>\<open>html\<close>) is inherited from a prototype.
\<close>

fun js_get :: "js \<Rightarrow> string \<Rightarrow> js" where
  "js_get (JObj kvs) name = (case map_of kvs name of Some v \<Rightarrow> v | None \<Rightarrow> JUndefined)"
| "js_get (JArr xs) name = (if name = ''length'' then JNum (of_nat (length xs)) else JUndefined)"
| "js_get (JStr s) name = (if name = ''length'' then JNum (of_nat (length s)) else JUndefined)"
| "js_get _ name = JUndefined"

text \<open>\<^verbatim>\<open>v[0]\<close> on a value that is neither \<^verbatim>\<open>undefined\<close> nor \<^verbatim>\<open>null\<close>.\<close>

fun index0 :: "js \<Rightarrow> js" where
  "index0 (JArr xs) = (case xs of [] \<Rightarrow> JUndefined | x # _ \<Rightarrow> x)"
| "index0 (JStr s) = (case s of [] \<Rightarrow> JUndefined | c # _ \<Rightarrow> JStr [c])"
| "index0 (JObj kvs) = (case map_of kvs ''0'' of Some v \<Rightarrow> v | None \<Rightarrow> JUndefined)"
| "index0 _ = JUndefined"

section \<open>The Query Executor: \<^verbatim>\<open>fetchPersistedQuery\<close>\<close>

text \<open>
  \<^verbatim>\<open>aemHeadlessClient\<close> is an external collaborator. A call of its
  \<^verbatim>\<open>runPersistedQuery\<close> that settles either resolves with a response or throws. What
  \<^verbatim>\<open>catch (e)\<close> does with the thrown value depends only on its \<^verbatim>\<open>toJSON\<close> member:
  it is not callable (\<^verbatim>\<open>undefined\<close>, \<^verbatim>\<open>null\<close>, a primitive, a native \<^verbatim>\<open>Error\<close>),
  or calling it returns a value, or calling it throws.
\<close>

datatype thrown =
    NoToJSON js
  | ToJSONReturns js
  | ToJSONThrows js

datatype client_result = Resolves js | Rejects thrown

datatype js_error = TypeError | Rethrown js

type_synonym client = "string \<Rightarrow> js \<Rightarrow> client_result"

text \<open>\<^verbatim>\<open>e.toJSON()\<close>\<close>

fun call_toJSON :: "thrown \<Rightarrow> js_error + js" where
  "call_toJSON (NoToJSON _) = Inl TypeError"
| "call_toJSON (ToJSONReturns j) = Inr j"
| "call_toJSON (ToJSONThrows x) = Inl (Rethrown x)"

record response =
  data :: js
  err :: js

text \<open>
  \<^verbatim>\<open>let data; let err;\<close> start as \<^verbatim>\<open>undefined\<close>. The result is \<open>Inr\<close> of the returned
  object, or \<open>Inl\<close> when the \<^verbatim>\<open>catch\<close> block itself throws and the promise of
  \<^verbatim>\<open>fetchPersistedQuery\<close> is rejected.
\<close>

definition fetchPersistedQuery :: "client \<Rightarrow> string \<Rightarrow> js \<Rightarrow> js_error + response" where
  "fetchPersistedQuery aemHeadlessClient persistedQueryName queryParameters =
     (case aemHeadlessClient persistedQueryName queryParameters of
        Resolves r \<Rightarrow> Inr \<lparr>data = js_get r ''data'', err = JUndefined\<rparr>
      | Rejects e \<Rightarrow>
          (case call_toJSON e of
             Inl x \<Rightarrow> Inl x
           | Inr j \<Rightarrow> Inr \<lparr>data = JUndefined, err = js_get j ''message''\<rparr>))"

section \<open>The Content Hooks\<close>

subsection \<open>Visible state\<close>

text \<open>
  \<^verbatim>\<open>useArticleBySlug\<close> and \<^verbatim>\<open>useArticles\<close> return \<^verbatim>\<open>{ data, error }\<close>,
  \<^verbatim>\<open>usePageBySlug\<close> returns \<^verbatim>\<open>{ data, references, error }\<close>. Every \<^verbatim>\<open>useState\<close>
  starts at \<^verbatim>\<open>null\<close>.
\<close>

record content_result =
  data :: js
  error :: js

record page_result = content_result +
  references :: js

definition content_init :: content_result where
  "content_init = \<lparr>data = JNull, error = JNull\<rparr>"

definition page_init :: page_result where
  "page_init = \<lparr>data = JNull, error = JNull, references = JNull\<rparr>"

subsection \<open>The body of \<^verbatim>\<open>fetchData\<close>\<close>

text \<open>
  \<^verbatim>\<open>fetchData\<close> is cut at its \<^verbatim>\<open>await\<close>. The part before it builds the request, the
  part after it reads the response and calls the setters. \<^verbatim>\<open>REACT_APP_ENDPOINT\<close> is
  a parameter; \<^verbatim>\<open>document.location.search\<close> is the list of the query string's pairs,
  and \<^verbatim>\<open>searchParams.get\<close> gives the first value of a name.
\<close>

record request =
  persistedQueryName :: string
  queryParameters :: js

definition page_request :: "string \<Rightarrow> (string \<times> string) list \<Rightarrow> string \<Rightarrow> request" where
  "page_request REACT_APP_ENDPOINT search slugName =
     (let gqlParams =
            (case map_of search ''variation'' of
               Some v \<Rightarrow> if v \<noteq> [] then [(''variation'', JStr v)] else []
             | None \<Rightarrow> [])
      in \<lparr>persistedQueryName = REACT_APP_ENDPOINT @ ''/page-by-slug'',
          queryParameters = JObj (gqlParams @ [(''slug'', JStr slugName)])\<rparr>)"

definition article_request :: "string \<Rightarrow> (string \<times> string) list \<Rightarrow> string \<Rightarrow> request" where
  "article_request REACT_APP_ENDPOINT search slugName =
     \<lparr>persistedQueryName = REACT_APP_ENDPOINT @ ''/article-by-slug'',
      queryParameters = JObj [(''slug'', JStr slugName)]\<rparr>"

definition articles_request :: "string \<Rightarrow> (string \<times> string) list \<Rightarrow> unit \<Rightarrow> request" where
  "articles_request REACT_APP_ENDPOINT search u =
     \<lparr>persistedQueryName = REACT_APP_ENDPOINT @ ''/articles'',
      queryParameters = JUndefined\<rparr>"

text \<open>
  After the \<^verbatim>\<open>await\<close>. Where a branch reads \<^verbatim>\<open>response.data.pageList.items[0]\<close>
  without \<^verbatim>\<open>?.\<close>, its guard has already found \<^verbatim>\<open>items\<close> with a \<^verbatim>\<open>length\<close>, so
  no member of that chain is \<^verbatim>\<open>undefined\<close> or \<^verbatim>\<open>null\<close>.
\<close>

definition page_commit :: "string \<Rightarrow> response \<Rightarrow> page_result \<Rightarrow> page_result" where
  "page_commit slugName resp st =
     (let pageList = js_get (response.data resp) ''pageList'' in
      if truthy (err resp) then st\<lparr>error := err resp\<rparr>
      else if js_get (js_get pageList ''items'') ''length'' = JNum 1 then
        st\<lparr>data := index0 (js_get pageList ''items''),
           references := js_get pageList ''_references''\<rparr>
      else st\<lparr>error := JStr (''Cannot find Page with slug: '' @ slugName)\<rparr>)"

definition article_commit :: "string \<Rightarrow> response \<Rightarrow> content_result \<Rightarrow> content_result" where
  "article_commit slugName resp st =
     (let articleList = js_get (response.data resp) ''articleList'' in
      if truthy (err resp) then st\<lparr>error := err resp\<rparr>
      else if js_get (js_get articleList ''items'') ''length'' = JNum 1 then
        st\<lparr>data := index0 (js_get articleList ''items'')\<rparr>
      else st\<lparr>error := JStr (''Cannot find Article with slug: '' @ slugName)\<rparr>)"

definition articles_commit :: "unit \<Rightarrow> response \<Rightarrow> content_result \<Rightarrow> content_result" where
  "articles_commit u resp st =
     (let edges = js_get (js_get (response.data resp) ''articlePaginated'') ''edges'' in
      if truthy (err resp) then st\<lparr>error := err resp\<rparr>
      else if truthy (js_get edges ''length'') then st\<lparr>data := edges\<rparr>
      else st\<lparr>error := JStr ''Cannot find Articles''\<rparr>)"

subsection \<open>A hook instance over time\<close>

text \<open>
  A mounted hook instance holds its visible state, the dependency array of the last
  run of its effect (\<open>None\<close> before the first render) and the calls of \<^verbatim>\<open>fetchData\<close>
  that wait at their \<^verbatim>\<open>await\<close>, each with the \<^verbatim>\<open>slugName\<close> its closure captured.
  JavaScript runs an effect, and the rest of a \<^verbatim>\<open>fetchData\<close> after its \<^verbatim>\<open>await\<close>, to
  completion one at a time, so the history of an instance is a sequence of two kinds
  of events:
  \<^item> \<open>Render k search\<close>: the component renders with \<^verbatim>\<open>slugName = k\<close>; the effect runs
    on the first render and whenever \<open>k\<close> differs from the last dependency, and
    starts a \<^verbatim>\<open>fetchData\<close>;
  \<^item> \<open>Settle i client\<close>: the client call of the \<open>i\<close>-th waiting \<^verbatim>\<open>fetchData\<close>
    settles as \<open>client\<close> answers it; \<^verbatim>\<open>fetchPersistedQuery\<close> returns and the rest of
    \<^verbatim>\<open>fetchData\<close> runs, or \<^verbatim>\<open>fetchPersistedQuery\<close> rejects and no setter is called.
  \<^verbatim>\<open>useArticles\<close> has the dependency array \<^verbatim>\<open>[]\<close>: its key is \<open>()\<close>.
\<close>

record ('k, 'v) hook =
  visible :: 'v
  deps :: "'k option"
  inflight :: "('k \<times> request) list"

datatype 'k event =
    Render 'k "(string \<times> string) list"
  | Settle nat client

fun hook_step ::
  "((string \<times> string) list \<Rightarrow> 'k \<Rightarrow> request) \<Rightarrow> ('k \<Rightarrow> response \<Rightarrow> 'v \<Rightarrow> 'v) \<Rightarrow>
   ('k, 'v) hook \<Rightarrow> 'k event \<Rightarrow> ('k, 'v) hook" where
  "hook_step start commit h (Render k search) =
     (if deps h = Some k then h
      else h\<lparr>deps := Some k, inflight := inflight h @ [(k, start search k)]\<rparr>)"
| "hook_step start commit h (Settle i aemHeadlessClient) =
     (if i < length (inflight h) then
        (let (k, rq) = inflight h ! i;
             h' = h\<lparr>inflight := take i (inflight h) @ drop (Suc i) (inflight h)\<rparr>
         in case fetchPersistedQuery aemHeadlessClient (persistedQueryName rq) (queryParameters rq) of
              Inl _ \<Rightarrow> h'
            | Inr resp \<Rightarrow> h'\<lparr>visible := commit k resp (visible h')\<rparr>)
      else h)"

definition mount :: "'v \<Rightarrow> ('k, 'v) hook" where
  "mount v = \<lparr>visible = v, deps = None, inflight = []\<rparr>"

definition usePageBySlug :: "string \<Rightarrow> (string, page_result) hook \<Rightarrow> string event \<Rightarrow> (string, page_result) hook" where
  "usePageBySlug REACT_APP_ENDPOINT = hook_step (page_request REACT_APP_ENDPOINT) page_commit"

definition useArticleBySlug :: "string \<Rightarrow> (string, content_result) hook \<Rightarrow> string event \<Rightarrow> (string, content_result) hook" where
  "useArticleBySlug REACT_APP_ENDPOINT = hook_step (article_request REACT_APP_ENDPOINT) article_commit"

definition useArticles :: "string \<Rightarrow> (unit, content_result) hook \<Rightarrow> unit event \<Rightarrow> (unit, content_result) hook" where
  "useArticles REACT_APP_ENDPOINT = hook_step (articles_request REACT_APP_ENDPOINT) articles_commit"

text \<open>The state of an instance after a history, from its mount.\<close>

definition run :: "('h \<Rightarrow> 'e \<Rightarrow> 'h) \<Rightarrow> 'h \<Rightarrow> 'e list \<Rightarrow> 'h" where
  "run step h evs = foldl step h evs"

section \<open>The Editable Field Binder: \<^verbatim>\<open>Text\<close>\<close>

text \<open>
  The props \<^verbatim>\<open>label\<close> and \<^verbatim>\<open>behavior\<close> are destructured and never read. The result
  is \<^verbatim>\<open>null\<close> or a \<^verbatim>\<open>div\<close> with the attributes \<^verbatim>\<open>data-aue-prop\<close>,
  \<^verbatim>\<open>data-aue-type\<close> and \<^verbatim>\<open>className\<close>, and either children or
  \<^verbatim>\<open>dangerouslySetInnerHTML\<close>.
\<close>

record text_props =
  children :: js
  content :: js
  className :: js
  propName :: js
  label :: js
  behavior :: js

datatype inner = Children js | DangerouslySetInnerHTML js

record element =
  data_aue_prop :: js
  data_aue_type :: string
  el_className :: js
  el_inner :: inner

text \<open>\<^verbatim>\<open>v.name\<close>, without \<^verbatim>\<open>?.\<close>: a \<^verbatim>\<open>TypeError\<close> on \<^verbatim>\<open>undefined\<close> and \<^verbatim>\<open>null\<close>.\<close>

definition js_member :: "js \<Rightarrow> string \<Rightarrow> js_error + js" where
  "js_member v name = (if v = JUndefined \<or> v = JNull then Inl TypeError else Inr (js_get v name))"

definition Text :: "text_props \<Rightarrow> js_error + element option" where
  "Text p =
     (if truthy (children p) \<or> truthy (js_get (content p) ''plaintext'') then
        (case (if truthy (children p) then Inr (children p)
               else js_member (content p) ''plaintext'') of
           Inl e \<Rightarrow> Inl e
         | Inr c \<Rightarrow>
             Inr (Some \<lparr>data_aue_prop = propName p, data_aue_type = ''text'',
                        el_className = className p, el_inner = Children c\<rparr>))
      else if truthy (js_get (content p) ''html'') then
        (case js_member (content p) ''html'' of
           Inl e \<Rightarrow> Inl e
         | Inr html \<Rightarrow>
             Inr (Some \<lparr>data_aue_prop = propName p, data_aue_type = ''richtext'',
                        el_className = className p, el_inner = DangerouslySetInnerHTML html\<rparr>))
      else Inr None)"

section \<open>Properties of the Query Executor\<close>

lemma fetchPersistedQuery_Resolves:
  "c n p = Resolves r \<Longrightarrow>
   fetchPersistedQuery c n p = Inr \<lparr>response.data = js_get r ''data'', err = JUndefined\<rparr>"
  by (simp add: fetchPersistedQuery_def)





text \<open>
  C7 (as stated): a response that the client resolves without a \<^verbatim>\<open>data\<close> field is a
  transport failure with a message. It is not: \<^verbatim>\<open>response?.data\<close> is \<^verbatim>\<open>undefined\<close>
  and \<^verbatim>\<open>err\<close> stays \<^verbatim>\<open>undefined\<close>, so no message is returned.
\<close>

theorem fetchPersistedQuery_malformed_envelope_counterexample:
  "fetchPersistedQuery (\<lambda>_ _. Resolves (JObj [(''errors'', JArr [])]))
     ''/graphql/execute.json/wknd/articles'' JUndefined
   = Inr \<lparr>response.data = JUndefined, err = JUndefined\<rparr>"
  by (simp add: fetchPersistedQuery_def)

text \<open>
  C7 (amended): whenever the client resolves, with a response of any shape,
  \<^verbatim>\<open>fetchPersistedQuery\<close> returns the \<^verbatim>\<open>data\<close> field of the response as \<^verbatim>\<open>data\<close>
  (\<^verbatim>\<open>undefined\<close> when the response has none) and leaves \<^verbatim>\<open>err\<close> \<^verbatim>\<open>undefined\<close>.
\<close>

theorem fetchPersistedQuery_success_payload:
  assumes "c n p = Resolves r"
  shows "fetchPersistedQuery c n p = Inr \<lparr>response.data = js_get r ''data'', err = JUndefined\<rparr>"
  using assms by (simp add: fetchPersistedQuery_def)

theorem fetchPersistedQuery_success_payload_witness:
  "fetchPersistedQuery
     (\<lambda>_ _. Resolves (JObj [(''data'', JObj [(''articlePaginated'', JObj [(''edges'', JArr [])])])]))
     ''/graphql/execute.json/wknd/articles'' JUndefined
   = Inr \<lparr>response.data = JObj [(''articlePaginated'', JObj [(''edges'', JArr [])])],
           err = JUndefined\<rparr>"
  using fetchPersistedQuery_success_payload
    [of "\<lambda>_ _. Resolves (JObj [(''data'', JObj [(''articlePaginated'', JObj [(''edges'', JArr [])])])])"
        "''/graphql/execute.json/wknd/articles''" JUndefined]
  by simp

section \<open>Properties of the Editable Field Binder\<close>

text \<open>
  C9 (as stated): when \<^verbatim>\<open>children\<close> and \<^verbatim>\<open>content.plaintext\<close> are not there and
  \<^verbatim>\<open>content.html\<close> is present, the result is a rich-text fragment. With
  \<^verbatim>\<open>content = {html: ""}\<close> the field is present and the result is \<^verbatim>\<open>null\<close>.
\<close>

theorem Text_empty_html_counterexample:
  "Text \<lparr>children = JUndefined, content = JObj [(''html'', JStr '''')], className = JUndefined,
         propName = JStr ''title'', label = JUndefined, behavior = JUndefined\<rparr> = Inr None"
  by (simp add: Text_def)

text \<open>
  C9 (amended): \<^verbatim>\<open>Text\<close> never throws and follows the precedence: truthy
  \<^verbatim>\<open>children\<close> give a \<^verbatim>\<open>div\<close> tagged \<^verbatim>\<open>"text"\<close> with the property name and the
  children as content; else a truthy (non-empty) \<^verbatim>\<open>content.plaintext\<close> gives the same
  with that value; else a truthy (non-empty) \<^verbatim>\<open>content.html\<close> gives a \<^verbatim>\<open>div\<close>
  tagged \<^verbatim>\<open>"richtext"\<close> with the HTML set unescaped; else the result is \<^verbatim>\<open>null\<close>.
\<close>

theorem Text_precedence:
  "Text p =
     (if truthy (children p) then
        Inr (Some \<lparr>data_aue_prop = propName p, data_aue_type = ''text'',
                   el_className = className p, el_inner = Children (children p)\<rparr>)
      else if truthy (js_get (content p) ''plaintext'') then
        Inr (Some \<lparr>data_aue_prop = propName p, data_aue_type = ''text'',
                   el_className = className p,
                   el_inner = Children (js_get (content p) ''plaintext'')\<rparr>)
      else if truthy (js_get (content p) ''html'') then
        Inr (Some \<lparr>data_aue_prop = propName p, data_aue_type = ''richtext'',
                   el_className = className p,
                   el_inner = DangerouslySetInnerHTML (js_get (content p) ''html'')\<rparr>)
      else Inr None)"
proof -
  have nn: "js_member (content p) n = Inr (js_get (content p) n)"
    if "truthy (js_get (content p) n)" for n
    using that by (auto simp: js_member_def)
  show ?thesis by (simp add: Text_def nn)
qed

text \<open>
  C10 (as stated): with falsy \<^verbatim>\<open>children\<close>, no non-empty plaintext and
  \<^verbatim>\<open>content.html\<close> present, the result is the rich-text fragment. With
  \<^verbatim>\<open>children = ""\<close> and \<^verbatim>\<open>content = {html: ""}\<close> the field is present and the
  result is \<^verbatim>\<open>null\<close>.
\<close>

theorem Text_empty_children_empty_html_counterexample:
  "Text \<lparr>children = JStr '''', content = JObj [(''html'', JStr '''')], className = JStr ''lead'',
         propName = JStr ''intro'', label = JUndefined, behavior = JUndefined\<rparr> = Inr None"
  by (simp add: Text_def)

text \<open>
  C10 (amended): falsy \<^verbatim>\<open>children\<close> (the empty string, \<^verbatim>\<open>0\<close>, \<^verbatim>\<open>null\<close>, ...) are
  treated as not supplied: the result is the one for \<^verbatim>\<open>children = undefined\<close>. With
  no non-empty plaintext and a non-empty (truthy) \<^verbatim>\<open>content.html\<close> it is the
  rich-text fragment, with neither it is \<^verbatim>\<open>null\<close>, and a fragment tagged
  \<^verbatim>\<open>"text"\<close> then always shows a non-empty \<^verbatim>\<open>content.plaintext\<close>, never the children.
\<close>

theorem Text_falsy_children:
  assumes "\<not> truthy (children p)"
  shows "Text p = Text (p\<lparr>children := JUndefined\<rparr>)
       \<and> (\<not> truthy (js_get (content p) ''plaintext'') \<and> truthy (js_get (content p) ''html'') \<longrightarrow>
            Text p = Inr (Some \<lparr>data_aue_prop = propName p, data_aue_type = ''richtext'',
                                el_className = className p,
                                el_inner = DangerouslySetInnerHTML (js_get (content p) ''html'')\<rparr>))
       \<and> (\<not> truthy (js_get (content p) ''plaintext'') \<and> \<not> truthy (js_get (content p) ''html'') \<longrightarrow>
            Text p = Inr None)
       \<and> (\<forall>el. Text p = Inr (Some el) \<and> data_aue_type el = ''text'' \<longrightarrow>
            truthy (js_get (content p) ''plaintext'') \<and>
            el_inner el = Children (js_get (content p) ''plaintext''))"
proof -
  have nn: "js_member (content p) n = Inr (js_get (content p) n)"
    if "truthy (js_get (content p) n)" for n
    using that by (auto simp: js_member_def)
  show ?thesis using assms by (auto simp: Text_def nn)
qed

theorem Text_falsy_children_witness:
  "Text \<lparr>children = JStr '''', content = JObj [(''html'', JStr ''<b>x</b>'')],
         className = JStr ''lead'', propName = JStr ''intro'', label = JUndefined,
         behavior = JUndefined\<rparr>
   = Inr (Some \<lparr>data_aue_prop = JStr ''intro'', data_aue_type = ''richtext'',
                 el_className = JStr ''lead'',
                 el_inner = DangerouslySetInnerHTML (JStr ''<b>x</b>'')\<rparr>)
   \<and> Text \<lparr>children = JStr '''', content = JObj [], className = JStr ''lead'',
            propName = JStr ''intro'', label = JUndefined, behavior = JUndefined\<rparr> = Inr None
   \<and> Text \<lparr>children = JStr '''', content = JObj [(''plaintext'', JStr ''Hello'')],
            className = JStr ''lead'', propName = JStr ''intro'', label = JUndefined,
            behavior = JUndefined\<rparr>
     = Text \<lparr>children = JUndefined, content = JObj [(''plaintext'', JStr ''Hello'')],
             className = JStr ''lead'', propName = JStr ''intro'', label = JUndefined,
             behavior = JUndefined\<rparr>"
  using
    Text_falsy_children [of "\<lparr>children = JStr '''', content = JObj [(''html'', JStr ''<b>x</b>'')],
         className = JStr ''lead'', propName = JStr ''intro'', label = JUndefined,
         behavior = JUndefined\<rparr>"]
    Text_falsy_children [of "\<lparr>children = JStr '''', content = JObj [], className = JStr ''lead'',
            propName = JStr ''intro'', label = JUndefined, behavior = JUndefined\<rparr>"]
    Text_falsy_children [of "\<lparr>children = JStr '''', content = JObj [(''plaintext'', JStr ''Hello'')],
            className = JStr ''lead'', propName = JStr ''intro'', label = JUndefined,
            behavior = JUndefined\<rparr>"]
  by (simp add: Text_def js_member_def)

section \<open>Properties of the Content Hooks\<close>

subsection \<open>One event\<close>

lemma hook_step_Settle_visible:
  assumes "i < length (inflight h)"
    and "fetchPersistedQuery c (persistedQueryName (snd (inflight h ! i)))
           (queryParameters (snd (inflight h ! i))) = Inr resp"
  shows "visible (hook_step start commit h (Settle i c)) =
         commit (fst (inflight h ! i)) resp (visible h)"
  using assms by (simp add: case_prod_beta)

lemma hook_step_Render_visible:
  "visible (hook_step start commit h (Render k s)) = visible h"
  by simp

subsection \<open>The three branches of \<^verbatim>\<open>fetchData\<close>\<close>




lemma not_length_1:
  assumes "items = JUndefined \<or> items = JNull \<or> (\<exists>xs. items = JArr xs \<and> length xs \<noteq> 1)"
  shows "js_get items ''length'' \<noteq> JNum 1"
  using assms by auto

lemma page_commit_single:
  assumes "\<not> truthy (err resp)"
    and "js_get (js_get (response.data resp) ''pageList'') ''items'' = JArr [x]"
  shows "page_commit k resp st =
         st\<lparr>data := x,
            references := js_get (js_get (response.data resp) ''pageList'') ''_references''\<rparr>"
  using assms by (simp add: page_commit_def)

lemma page_commit_not_found:
  assumes "\<not> truthy (err resp)"
    and "js_get (js_get (response.data resp) ''pageList'') ''items'' = items"
    and "items = JUndefined \<or> items = JNull \<or> (\<exists>xs. items = JArr xs \<and> length xs \<noteq> 1)"
  shows "page_commit k resp st = st\<lparr>error := JStr (''Cannot find Page with slug: '' @ k)\<rparr>"
  using assms(1,2) not_length_1 [OF assms(3)] by (simp add: page_commit_def)

lemma article_commit_single:
  assumes "\<not> truthy (err resp)"
    and "js_get (js_get (response.data resp) ''articleList'') ''items'' = JArr [x]"
  shows "article_commit k resp st = st\<lparr>data := x\<rparr>"
  using assms by (simp add: article_commit_def)

lemma article_commit_not_found:
  assumes "\<not> truthy (err resp)"
    and "js_get (js_get (response.data resp) ''articleList'') ''items'' = items"
    and "items = JUndefined \<or> items = JNull \<or> (\<exists>xs. items = JArr xs \<and> length xs \<noteq> 1)"
  shows "article_commit k resp st =
         st\<lparr>error := JStr (''Cannot find Article with slug: '' @ k)\<rparr>"
  using assms(1,2) not_length_1 [OF assms(3)] by (simp add: article_commit_def)

lemma articles_commit_edges:
  assumes "\<not> truthy (err resp)"
    and "js_get (js_get (response.data resp) ''articlePaginated'') ''edges'' = JArr xs"
    and "xs \<noteq> []"
  shows "articles_commit u resp st = st\<lparr>data := JArr xs\<rparr>"
  using assms by (simp add: articles_commit_def)

lemma articles_commit_not_found:
  assumes "\<not> truthy (err resp)"
    and "js_get (js_get (response.data resp) ''articlePaginated'') ''edges'' = edges"
    and "edges = JArr [] \<or> edges = JUndefined \<or> edges = JNull"
  shows "articles_commit u resp st = st\<lparr>error := JStr ''Cannot find Articles''\<rparr>"
  using assms by (auto simp: articles_commit_def)

subsection \<open>Histories\<close>

lemma run_Nil [simp]: "run step h [] = h"
  by (simp add: run_def)

lemma run_Cons [simp]: "run step h (e # evs) = run step (step h e) evs"
  by (simp add: run_def)

text \<open>One fetch cycle from a state with nothing in flight.\<close>

lemma cycle:
  assumes "inflight h = []" and "deps h \<noteq> Some k"
    and f: "\<And>n p. fetchPersistedQuery c n p = Inr resp"
  shows "run (hook_step start commit) h [Render k s, Settle 0 c] =
         h\<lparr>deps := Some k, inflight := [], visible := commit k resp (visible h)\<rparr>"
  using assms(1-2) by (simp add: f)

text \<open>The first fetch cycle of an instance.\<close>

lemma first_cycle:
  assumes f: "\<And>n p. fetchPersistedQuery c n p = Inr resp"
  shows "visible (run (hook_step start commit) (mount v0) [Render k s, Settle 0 c]) =
         commit k resp v0"
proof -
  have "run (hook_step start commit) (mount v0) [Render k s, Settle 0 c] =
        (mount v0)\<lparr>deps := Some k, inflight := [], visible := commit k resp (visible (mount v0))\<rparr>"
    using cycle [OF _ _ f, of "mount v0" k start commit s] by (simp add: mount_def)
  then show ?thesis by (simp add: mount_def)
qed

text \<open>
  One fetch cycle whatever \<^verbatim>\<open>fetchPersistedQuery\<close> does: when it rejects, \<^verbatim>\<open>fetchData\<close>
  stops at its \<^verbatim>\<open>await\<close> and no setter is called.
\<close>

lemma cycle_any:
  assumes "inflight h = []" and "deps h \<noteq> Some k"
    and f: "\<And>n p. fetchPersistedQuery c n p = out"
  shows "run (hook_step start commit) h [Render k s, Settle 0 c] =
         h\<lparr>deps := Some k, inflight := [],
           visible := (case out of Inl _ \<Rightarrow> visible h | Inr resp \<Rightarrow> commit k resp (visible h))\<rparr>"
  using assms(1-2) by (cases out) (simp_all add: f)

text \<open>Two fetches in flight, settling in either order.\<close>

lemma race_out_of_order:
  assumes "inflight h = []" and "deps h \<noteq> Some a" and "a \<noteq> b"
    and fa: "\<And>n p. fetchPersistedQuery ca n p = oa"
    and fb: "\<And>n p. fetchPersistedQuery cb n p = ob"
  shows "run (hook_step start commit) h [Render a sa, Render b sb, Settle 1 cb, Settle 0 ca] =
         h\<lparr>deps := Some b, inflight := [],
           visible := (case oa of Inl _ \<Rightarrow> id | Inr ra \<Rightarrow> commit a ra)
                        ((case ob of Inl _ \<Rightarrow> id | Inr rb \<Rightarrow> commit b rb) (visible h))\<rparr>"
  using assms(1-3) by (cases oa; cases ob) (simp_all add: fa fb)

lemma race_in_order:
  assumes "inflight h = []" and "deps h \<noteq> Some a" and "a \<noteq> b"
    and fa: "\<And>n p. fetchPersistedQuery ca n p = oa"
    and fb: "\<And>n p. fetchPersistedQuery cb n p = ob"
  shows "run (hook_step start commit) h [Render a sa, Render b sb, Settle 0 ca, Settle 0 cb] =
         h\<lparr>deps := Some b, inflight := [],
           visible := (case ob of Inl _ \<Rightarrow> id | Inr rb \<Rightarrow> commit b rb)
                        ((case oa of Inl _ \<Rightarrow> id | Inr ra \<Rightarrow> commit a ra) (visible h))\<rparr>"
  using assms(1-3) by (cases oa; cases ob) (simp_all add: fa fb)

text \<open>
  While every render carries the same key, at most one fetch is ever in flight, and it
  finds the initial state: a property of the initial state that every first commit
  keeps holds throughout.
\<close>

lemma single_key_invariant:
  fixes start :: "(string \<times> string) list \<Rightarrow> 'k \<Rightarrow> request"
    and commit :: "'k \<Rightarrow> response \<Rightarrow> 'v \<Rightarrow> 'v"
  assumes P0: "P v0"
    and P: "\<And>k resp. P (commit k resp v0)"
    and evs: "\<forall>e\<in>set evs. \<forall>k' s. e = Render k' s \<longrightarrow> k' = k"
  shows "P (visible (run (hook_step start commit) (mount v0) evs))"
proof -
  define I where "I = (\<lambda>h :: ('k, 'v) hook.
     P (visible h) \<and>
     ((deps h = None \<and> inflight h = [] \<and> visible h = v0) \<or>
      (deps h = Some k \<and> length (inflight h) \<le> 1 \<and> (inflight h \<noteq> [] \<longrightarrow> visible h = v0))))"
  have step: "I (hook_step start commit h e)"
    if Ih: "I h" and e: "\<forall>k' s. e = Render k' s \<longrightarrow> k' = k" for h e
  proof (cases e)
    case (Render k' s)
    with e have "k' = k" by simp
    with Render Ih show ?thesis by (auto simp: I_def)
  next
    case (Settle i c)
    show ?thesis
    proof (cases "i < length (inflight h)")
      case False
      with Settle Ih show ?thesis by simp
    next
      case True
      with Ih have i0: "i = 0" and v: "visible h = v0" and d: "deps h = Some k"
        and l: "length (inflight h) = 1"
        by (auto simp: I_def)
      from l obtain q where q: "inflight h = [q]" by (cases "inflight h") auto
      show ?thesis
        using P P0 by (auto simp: Settle i0 v d q I_def Let_def case_prod_beta split: sum.splits)
    qed
  qed
  have "I (run (hook_step start commit) h evs)" if "I h" for h
    using that evs
  proof (induction evs arbitrary: h)
    case Nil
    then show ?case by simp
  next
    case (Cons e evs)
    have "I (hook_step start commit h e)"
      using Cons.prems by (intro step) auto
    then show ?case using Cons by simp
  qed
  moreover have "I (mount v0)"
    using P0 by (simp add: I_def mount_def)
  ultimately show ?thesis by (simp add: I_def)
qed

lemma page_commit_init:
  "data (page_commit k resp page_init) = JNull \<or> error (page_commit k resp page_init) = JNull"
  by (simp add: page_commit_def page_init_def Let_def)

lemma article_commit_init:
  "data (article_commit k resp content_init) = JNull \<or>
   error (article_commit k resp content_init) = JNull"
  by (simp add: article_commit_def content_init_def Let_def)

lemma articles_commit_init:
  "data (articles_commit u resp content_init) = JNull \<or>
   error (articles_commit u resp content_init) = JNull"
  by (simp add: articles_commit_def content_init_def Let_def)

subsection \<open>Transport failures\<close>




subsection \<open>Validation of the payload\<close>

text \<open>
  C6 (as stated): for every successful by-slug payload with exactly one item, the hook
  resolves to Resolved. It does not in every state: the fetch for \<^verbatim>\<open>a\<close> fails, the
  slug changes to \<^verbatim>\<open>b\<close> and the payload for \<^verbatim>\<open>b\<close> has one item; \<^verbatim>\<open>data\<close> is that
  item, but \<^verbatim>\<open>setData\<close> does not clear \<^verbatim>\<open>error\<close>, which still holds the message of
  the failed fetch.
\<close>

theorem one_item_after_failure_counterexample:
  "run (useArticleBySlug ''/wknd'') (mount content_init)
     [Render ''a'' [],
      Settle 0 (\<lambda>_ _. Rejects (ToJSONReturns (JObj [(''message'', JStr ''Request failed'')]))),
      Render ''b'' [],
      Settle 0 (\<lambda>_ _. Resolves (JObj [(''data'', JObj [(''articleList'',
         JObj [(''items'', JArr [JObj [(''slug'', JStr ''b'')]])])])]))]
   = \<lparr>visible = \<lparr>data = JObj [(''slug'', JStr ''b'')], error = JStr ''Request failed''\<rparr>,
      deps = Some ''b'', inflight = []\<rparr>"
  by (simp add: useArticleBySlug_def mount_def content_init_def article_request_def
      fetchPersistedQuery_def article_commit_def)

text \<open>
  C6 (amended): when the client resolves with a payload, a by-slug hook looks at
  \<^verbatim>\<open>payload.pageList.items\<close> (\<^verbatim>\<open>payload.articleList.items\<close>). In the first fetch cycle
  of an instance, an array of length exactly 1 resolves the hook: \<^verbatim>\<open>data\<close> is
  \<^verbatim>\<open>items[0]\<close> (and, for a page, \<^verbatim>\<open>references\<close> is \<^verbatim>\<open>payload.pageList._references\<close>)
  and \<^verbatim>\<open>error\<close> is \<^verbatim>\<open>null\<close>; an array of length 0 or at least 2, or an absent
  collection, makes it errored: \<^verbatim>\<open>error\<close> is \<^verbatim>\<open>Cannot find Page with slug: \<close>
  (\<^verbatim>\<open>Cannot find Article with slug: \<close>) followed by the requested slug, and \<^verbatim>\<open>data\<close> is
  \<^verbatim>\<open>null\<close>. A fetch that settles in any other state writes the same fields and leaves
  the others as they are: one item sets \<^verbatim>\<open>data\<close> (and \<^verbatim>\<open>references\<close>) and does not
  clear \<^verbatim>\<open>error\<close>; no single item sets \<^verbatim>\<open>error\<close>, with the slug the fetch was
  started for, and does not clear \<^verbatim>\<open>data\<close>.
\<close>

theorem by_slug_payload_validation:
  assumes c: "\<And>n p. c n p = Resolves r"
    and pl: "js_get (js_get (js_get r ''data'') ''pageList'') ''items'' = pitems"
    and al: "js_get (js_get (js_get r ''data'') ''articleList'') ''items'' = aitems"
  shows "(pitems = JArr [x] \<longrightarrow>
            visible (run (usePageBySlug ep) (mount page_init) [Render k s, Settle 0 c]) =
              \<lparr>data = x, error = JNull,
               references = js_get (js_get (js_get r ''data'') ''pageList'') ''_references''\<rparr>)
       \<and> (pitems = JUndefined \<or> pitems = JNull \<or> (\<exists>xs. pitems = JArr xs \<and> length xs \<noteq> 1) \<longrightarrow>
            visible (run (usePageBySlug ep) (mount page_init) [Render k s, Settle 0 c]) =
              \<lparr>data = JNull, error = JStr (''Cannot find Page with slug: '' @ k),
               references = JNull\<rparr>)
       \<and> (aitems = JArr [x] \<longrightarrow>
            visible (run (useArticleBySlug ep) (mount content_init) [Render k s, Settle 0 c]) =
              \<lparr>data = x, error = JNull\<rparr>)
       \<and> (aitems = JUndefined \<or> aitems = JNull \<or> (\<exists>xs. aitems = JArr xs \<and> length xs \<noteq> 1) \<longrightarrow>
            visible (run (useArticleBySlug ep) (mount content_init) [Render k s, Settle 0 c]) =
              \<lparr>data = JNull, error = JStr (''Cannot find Article with slug: '' @ k)\<rparr>)
       \<and> (i < length (inflight hp) \<and> pitems = JArr [x] \<longrightarrow>
            visible (usePageBySlug ep hp (Settle i c)) =
              (visible hp)\<lparr>data := x,
                references := js_get (js_get (js_get r ''data'') ''pageList'') ''_references''\<rparr>)
       \<and> (i < length (inflight hp) \<and>
            (pitems = JUndefined \<or> pitems = JNull \<or> (\<exists>xs. pitems = JArr xs \<and> length xs \<noteq> 1)) \<longrightarrow>
            visible (usePageBySlug ep hp (Settle i c)) =
              (visible hp)\<lparr>error :=
                 JStr (''Cannot find Page with slug: '' @ fst (inflight hp ! i))\<rparr>)
       \<and> (i < length (inflight ha) \<and> aitems = JArr [x] \<longrightarrow>
            visible (useArticleBySlug ep ha (Settle i c)) = (visible ha)\<lparr>data := x\<rparr>)
       \<and> (i < length (inflight ha) \<and>
            (aitems = JUndefined \<or> aitems = JNull \<or> (\<exists>xs. aitems = JArr xs \<and> length xs \<noteq> 1)) \<longrightarrow>
            visible (useArticleBySlug ep ha (Settle i c)) =
              (visible ha)\<lparr>error :=
                 JStr (''Cannot find Article with slug: '' @ fst (inflight ha ! i))\<rparr>)"
proof -
  let ?resp = "\<lparr>response.data = js_get r ''data'', err = JUndefined\<rparr>"
  let ?pnf = "pitems = JUndefined \<or> pitems = JNull \<or> (\<exists>xs. pitems = JArr xs \<and> length xs \<noteq> 1)"
  let ?anf = "aitems = JUndefined \<or> aitems = JNull \<or> (\<exists>xs. aitems = JArr xs \<and> length xs \<noteq> 1)"
  have f: "fetchPersistedQuery c n p = Inr ?resp" for n p
    using c by (rule fetchPersistedQuery_Resolves)
  have e: "\<not> truthy (err ?resp)" by simp
  have p1: "page_commit k ?resp st =
      st\<lparr>data := x, references := js_get (js_get (js_get r ''data'') ''pageList'') ''_references''\<rparr>"
    if "pitems = JArr [x]" for k st
    using page_commit_single [OF e, of x k st] pl that by simp
  have p2: "page_commit k ?resp st = st\<lparr>error := JStr (''Cannot find Page with slug: '' @ k)\<rparr>"
    if ?pnf for k st
    using page_commit_not_found [OF e, of pitems k st] pl that by simp
  have a1: "article_commit k ?resp st = st\<lparr>data := x\<rparr>" if "aitems = JArr [x]" for k st
    using article_commit_single [OF e, of x k st] al that by simp
  have a2: "article_commit k ?resp st =
      st\<lparr>error := JStr (''Cannot find Article with slug: '' @ k)\<rparr>"
    if ?anf for k st
    using article_commit_not_found [OF e, of aitems k st] al that by simp
  have P: "visible (usePageBySlug ep hp (Settle i c)) =
           page_commit (fst (inflight hp ! i)) ?resp (visible hp)"
    if "i < length (inflight hp)"
    unfolding usePageBySlug_def using that by (rule hook_step_Settle_visible [OF _ f])
  have A: "visible (useArticleBySlug ep ha (Settle i c)) =
           article_commit (fst (inflight ha ! i)) ?resp (visible ha)"
    if "i < length (inflight ha)"
    unfolding useArticleBySlug_def using that by (rule hook_step_Settle_visible [OF _ f])
  have PF: "visible (run (usePageBySlug ep) (mount page_init) [Render k s, Settle 0 c]) =
            page_commit k ?resp page_init"
    unfolding usePageBySlug_def by (rule first_cycle [OF f])
  have AF: "visible (run (useArticleBySlug ep) (mount content_init) [Render k s, Settle 0 c]) =
            article_commit k ?resp content_init"
    unfolding useArticleBySlug_def by (rule first_cycle [OF f])
  have 1: "pitems = JArr [x] \<longrightarrow>
            visible (run (usePageBySlug ep) (mount page_init) [Render k s, Settle 0 c]) =
              \<lparr>data = x, error = JNull,
               references = js_get (js_get (js_get r ''data'') ''pageList'') ''_references''\<rparr>"
    using p1 [of k page_init] by (simp only: PF) (simp add: page_init_def)
  have 2: "?pnf \<longrightarrow>
            visible (run (usePageBySlug ep) (mount page_init) [Render k s, Settle 0 c]) =
              \<lparr>data = JNull, error = JStr (''Cannot find Page with slug: '' @ k),
               references = JNull\<rparr>"
    using p2 [of k page_init] by (simp only: PF) (simp add: page_init_def)
  have 3: "aitems = JArr [x] \<longrightarrow>
            visible (run (useArticleBySlug ep) (mount content_init) [Render k s, Settle 0 c]) =
              \<lparr>data = x, error = JNull\<rparr>"
    using a1 [of k content_init] by (simp only: AF) (simp add: content_init_def)
  have 4: "?anf \<longrightarrow>
            visible (run (useArticleBySlug ep) (mount content_init) [Render k s, Settle 0 c]) =
              \<lparr>data = JNull, error = JStr (''Cannot find Article with slug: '' @ k)\<rparr>"
    using a2 [of k content_init] by (simp only: AF) (simp add: content_init_def)
  have 5: "i < length (inflight hp) \<and> pitems = JArr [x] \<longrightarrow>
            visible (usePageBySlug ep hp (Settle i c)) =
              (visible hp)\<lparr>data := x,
                references := js_get (js_get (js_get r ''data'') ''pageList'') ''_references''\<rparr>"
    using P p1 by simp
  have 6: "i < length (inflight hp) \<and> ?pnf \<longrightarrow>
            visible (usePageBySlug ep hp (Settle i c)) =
              (visible hp)\<lparr>error :=
                 JStr (''Cannot find Page with slug: '' @ fst (inflight hp ! i))\<rparr>"
    using P p2 by metis
  have 7: "i < length (inflight ha) \<and> aitems = JArr [x] \<longrightarrow>
            visible (useArticleBySlug ep ha (Settle i c)) = (visible ha)\<lparr>data := x\<rparr>"
    using A a1 by simp
  have 8: "i < length (inflight ha) \<and> ?anf \<longrightarrow>
            visible (useArticleBySlug ep ha (Settle i c)) =
              (visible ha)\<lparr>error :=
                 JStr (''Cannot find Article with slug: '' @ fst (inflight ha ! i))\<rparr>"
    using A a2 by metis
  from 1 2 3 4 5 6 7 8 show ?thesis by blast
qed

theorem by_slug_payload_validation_witness:
  "visible (run (usePageBySlug ''/wknd'') (mount page_init)
      [Render ''home'' [(''variation'', ''summer'')],
       Settle 0 (\<lambda>_ _. Resolves (JObj [(''data'', JObj
          [(''pageList'', JObj [(''items'', JArr [JObj [(''title'', JStr ''Home'')]]),
                                (''_references'', JArr [])]),
           (''articleList'', JObj [(''items'', JArr [])])])]))])
   = \<lparr>data = JObj [(''title'', JStr ''Home'')], error = JNull, references = JArr []\<rparr>
   \<and> visible (run (useArticleBySlug ''/wknd'') (mount content_init)
      [Render ''home'' [(''variation'', ''summer'')],
       Settle 0 (\<lambda>_ _. Resolves (JObj [(''data'', JObj
          [(''pageList'', JObj [(''items'', JArr [JObj [(''title'', JStr ''Home'')]]),
                                (''_references'', JArr [])]),
           (''articleList'', JObj [(''items'', JArr [])])])]))])
   = \<lparr>data = JNull, error = JStr ''Cannot find Article with slug: home''\<rparr>
   \<and> visible (useArticleBySlug ''/wknd''
      \<lparr>visible = \<lparr>data = JNull, error = JStr ''Request failed''\<rparr>, deps = Some ''surfing'',
        inflight = [(''surfing'', article_request ''/wknd'' [] ''surfing'')]\<rparr>
      (Settle 0 (\<lambda>_ _. Resolves (JObj [(''data'', JObj
          [(''pageList'', JObj [(''items'', JArr [JObj [(''title'', JStr ''Home'')]]),
                                (''_references'', JArr [])]),
           (''articleList'', JObj [(''items'', JArr [])])])]))))
   = \<lparr>data = JNull, error = JStr ''Cannot find Article with slug: surfing''\<rparr>"
  using by_slug_payload_validation
    [where c = "\<lambda>_ _. Resolves (JObj [(''data'', JObj
          [(''pageList'', JObj [(''items'', JArr [JObj [(''title'', JStr ''Home'')]]),
                                (''_references'', JArr [])]),
           (''articleList'', JObj [(''items'', JArr [])])])])"
       and r = "JObj [(''data'', JObj
          [(''pageList'', JObj [(''items'', JArr [JObj [(''title'', JStr ''Home'')]]),
                                (''_references'', JArr [])]),
           (''articleList'', JObj [(''items'', JArr [])])])]"
       and pitems = "JArr [JObj [(''title'', JStr ''Home'')]]" and aitems = "JArr []"
       and x = "JObj [(''title'', JStr ''Home'')]" and ep = "''/wknd''" and k = "''home''"
       and s = "[(''variation'', ''summer'')]" and i = 0
       and hp = "\<lparr>visible = page_init, deps = Some ''home'',
                  inflight = [(''home'', page_request ''/wknd'' [] ''home'')]\<rparr>"
       and ha = "\<lparr>visible = \<lparr>data = JNull, error = JStr ''Request failed''\<rparr>,
                  deps = Some ''surfing'',
                  inflight = [(''surfing'', article_request ''/wknd'' [] ''surfing'')]\<rparr>"]
  by simp

text \<open>
  C8: when the client resolves with a payload, \<^verbatim>\<open>useArticles\<close> looks at
  \<^verbatim>\<open>payload.articlePaginated.edges\<close>: a non-empty array resolves the hook with
  \<^verbatim>\<open>data\<close> equal to that array; an empty array or an absent \<^verbatim>\<open>edges\<close> makes it
  errored with \<^verbatim>\<open>Cannot find Articles\<close>.
\<close>

theorem articles_payload_validation:
  assumes c: "\<And>n p. c n p = Resolves r"
    and ed: "js_get (js_get (js_get r ''data'') ''articlePaginated'') ''edges'' = edges"
  shows "(\<forall>xs. edges = JArr xs \<and> xs \<noteq> [] \<longrightarrow>
            visible (run (useArticles ep) (mount content_init) [Render () s, Settle 0 c]) =
              \<lparr>data = JArr xs, error = JNull\<rparr>)
       \<and> (edges = JArr [] \<or> edges = JUndefined \<or> edges = JNull \<longrightarrow>
            visible (run (useArticles ep) (mount content_init) [Render () s, Settle 0 c]) =
              \<lparr>data = JNull, error = JStr ''Cannot find Articles''\<rparr>)
       \<and> (\<forall>xs. i < length (inflight h) \<and> edges = JArr xs \<and> xs \<noteq> [] \<longrightarrow>
            visible (useArticles ep h (Settle i c)) = (visible h)\<lparr>data := JArr xs\<rparr>)
       \<and> (i < length (inflight h) \<and> (edges = JArr [] \<or> edges = JUndefined \<or> edges = JNull) \<longrightarrow>
            visible (useArticles ep h (Settle i c)) =
              (visible h)\<lparr>error := JStr ''Cannot find Articles''\<rparr>)"
proof -
  let ?resp = "\<lparr>response.data = js_get r ''data'', err = JUndefined\<rparr>"
  let ?nf = "edges = JArr [] \<or> edges = JUndefined \<or> edges = JNull"
  have f: "fetchPersistedQuery c n p = Inr ?resp" for n p
    using c by (rule fetchPersistedQuery_Resolves)
  have e: "\<not> truthy (err ?resp)" by simp
  have V: "visible (useArticles ep h (Settle i c)) =
           articles_commit (fst (inflight h ! i)) ?resp (visible h)"
    if "i < length (inflight h)"
    unfolding useArticles_def using that by (rule hook_step_Settle_visible [OF _ f])
  have F: "visible (run (useArticles ep) (mount content_init) [Render () s, Settle 0 c]) =
           articles_commit () ?resp content_init"
    unfolding useArticles_def by (rule first_cycle [OF f])
  have c1: "articles_commit u ?resp st = st\<lparr>data := JArr xs\<rparr>"
    if "edges = JArr xs" "xs \<noteq> []" for u st xs
    using articles_commit_edges [OF e, of xs u st] ed that by simp
  have c2: "articles_commit u ?resp st = st\<lparr>error := JStr ''Cannot find Articles''\<rparr>"
    if ?nf for u st
    using articles_commit_not_found [OF e, of edges u st] ed that by simp
  have 1: "\<forall>xs. edges = JArr xs \<and> xs \<noteq> [] \<longrightarrow>
            visible (run (useArticles ep) (mount content_init) [Render () s, Settle 0 c]) =
              \<lparr>data = JArr xs, error = JNull\<rparr>"
    using c1 [of _ "()" content_init] by (simp only: F) (simp add: content_init_def)
  have 2: "?nf \<longrightarrow>
            visible (run (useArticles ep) (mount content_init) [Render () s, Settle 0 c]) =
              \<lparr>data = JNull, error = JStr ''Cannot find Articles''\<rparr>"
    using c2 [of "()" content_init] by (simp only: F) (simp add: content_init_def)
  have 3: "\<forall>xs. i < length (inflight h) \<and> edges = JArr xs \<and> xs \<noteq> [] \<longrightarrow>
            visible (useArticles ep h (Settle i c)) = (visible h)\<lparr>data := JArr xs\<rparr>"
    using V c1 by simp
  have 4: "i < length (inflight h) \<and> ?nf \<longrightarrow>
            visible (useArticles ep h (Settle i c)) =
              (visible h)\<lparr>error := JStr ''Cannot find Articles''\<rparr>"
    using V c2 by metis
  from 1 2 3 4 show ?thesis by blast
qed

theorem articles_payload_validation_witness:
  "visible (run (useArticles ''/wknd'') (mount content_init)
      [Render () [],
       Settle 0 (\<lambda>_ _. Resolves (JObj [(''data'', JObj [(''articlePaginated'',
          JObj [(''edges'', JArr [JObj [(''node'', JStr ''e1'')],
                                  JObj [(''node'', JStr ''e2'')]])])])]))])
   = \<lparr>data = JArr [JObj [(''node'', JStr ''e1'')], JObj [(''node'', JStr ''e2'')]],
      error = JNull\<rparr>
   \<and> visible (run (useArticles ''/wknd'') (mount content_init)
      [Render () [],
       Settle 0 (\<lambda>_ _. Resolves (JObj [(''data'', JObj [(''articlePaginated'',
          JObj [(''edges'', JArr [])])])]))])
   = \<lparr>data = JNull, error = JStr ''Cannot find Articles''\<rparr>"
  using
    articles_payload_validation
    [where c = "\<lambda>_ _. Resolves (JObj [(''data'', JObj [(''articlePaginated'',
          JObj [(''edges'', JArr [JObj [(''node'', JStr ''e1'')],
                                  JObj [(''node'', JStr ''e2'')]])])])])"
       and r = "JObj [(''data'', JObj [(''articlePaginated'',
          JObj [(''edges'', JArr [JObj [(''node'', JStr ''e1'')],
                                  JObj [(''node'', JStr ''e2'')]])])])]"
       and edges = "JArr [JObj [(''node'', JStr ''e1'')], JObj [(''node'', JStr ''e2'')]]"
       and ep = "''/wknd''" and s = "[]" and i = 0
       and h = "\<lparr>visible = content_init, deps = Some (),
                 inflight = [((), articles_request ''/wknd'' [] ())]\<rparr>"]
    articles_payload_validation
    [where c = "\<lambda>_ _. Resolves (JObj [(''data'', JObj [(''articlePaginated'',
          JObj [(''edges'', JArr [])])])])"
       and r = "JObj [(''data'', JObj [(''articlePaginated'', JObj [(''edges'', JArr [])])])]"
       and edges = "JArr []" and ep = "''/wknd''" and s = "[]" and i = 0
       and h = "\<lparr>visible = content_init, deps = Some (),
                 inflight = [((), articles_request ''/wknd'' [] ())]\<rparr>"]
  by simp

subsection \<open>Slug changes\<close>

text \<open>
  C1 (as stated): when the slug changes before the prior fetch completes, the prior
  fetch's result is discarded whatever the order of completion. It is not: the slug
  goes from \<^verbatim>\<open>a\<close> to \<^verbatim>\<open>b\<close>, the fetch for \<^verbatim>\<open>b\<close> completes first, the one for \<^verbatim>\<open>a\<close>
  last, and the page shown for the current slug \<^verbatim>\<open>b\<close> is the page of \<^verbatim>\<open>a\<close>.
\<close>

theorem stale_fetch_overwrites_counterexample:
  "run (usePageBySlug ''/wknd'') (mount page_init)
     [Render ''a'' [], Render ''b'' [],
      Settle 1 (\<lambda>_ _. Resolves (JObj [(''data'', JObj [(''pageList'',
         JObj [(''items'', JArr [JObj [(''slug'', JStr ''b'')]]), (''_references'', JArr [])])])])),
      Settle 0 (\<lambda>_ _. Resolves (JObj [(''data'', JObj [(''pageList'',
         JObj [(''items'', JArr [JObj [(''slug'', JStr ''a'')]]), (''_references'', JArr [])])])]))]
   = \<lparr>visible = \<lparr>data = JObj [(''slug'', JStr ''a'')], error = JNull, references = JArr []\<rparr>,
      deps = Some ''b'', inflight = []\<rparr>"
  by (simp add: usePageBySlug_def mount_def page_init_def page_request_def
      fetchPersistedQuery_def page_commit_def)

text \<open>
  C1 (amended): when the slug of a by-slug hook with no fetch in flight changes to
  \<^verbatim>\<open>a\<close> and then to another slug \<^verbatim>\<open>b\<close> before the fetch for \<^verbatim>\<open>a\<close> completes, the
  result of the fetch for \<^verbatim>\<open>a\<close> is not discarded. Whatever the order in which the two fetches complete, the final visible
  state is what the fetch that completes last does to what the fetch that completes
  first has done to the state before: a fetch whose \<^verbatim>\<open>fetchPersistedQuery\<close> returns
  commits its outcome with the slug it was started for, and a fetch whose
  \<^verbatim>\<open>fetchPersistedQuery\<close> rejects changes nothing. The order of completion decides, not
  the order of the requests.
\<close>

theorem completion_order_decides:
  assumes ab: "a \<noteq> b"
    and hp: "inflight hp = []" "deps hp \<noteq> Some a"
    and ha: "inflight ha = []" "deps ha \<noteq> Some a"
    and fa: "\<And>n p. fetchPersistedQuery ca n p = oa"
    and fb: "\<And>n p. fetchPersistedQuery cb n p = ob"
  shows "run (usePageBySlug ep) hp [Render a sa, Render b sb, Settle 1 cb, Settle 0 ca] =
           hp\<lparr>deps := Some b, inflight := [],
              visible := (case oa of Inl _ \<Rightarrow> id | Inr ra \<Rightarrow> page_commit a ra)
                           ((case ob of Inl _ \<Rightarrow> id | Inr rb \<Rightarrow> page_commit b rb) (visible hp))\<rparr>
       \<and> run (usePageBySlug ep) hp [Render a sa, Render b sb, Settle 0 ca, Settle 0 cb] =
           hp\<lparr>deps := Some b, inflight := [],
              visible := (case ob of Inl _ \<Rightarrow> id | Inr rb \<Rightarrow> page_commit b rb)
                           ((case oa of Inl _ \<Rightarrow> id | Inr ra \<Rightarrow> page_commit a ra) (visible hp))\<rparr>
       \<and> run (useArticleBySlug ep) ha [Render a sa, Render b sb, Settle 1 cb, Settle 0 ca] =
           ha\<lparr>deps := Some b, inflight := [],
              visible := (case oa of Inl _ \<Rightarrow> id | Inr ra \<Rightarrow> article_commit a ra)
                           ((case ob of Inl _ \<Rightarrow> id | Inr rb \<Rightarrow> article_commit b rb) (visible ha))\<rparr>
       \<and> run (useArticleBySlug ep) ha [Render a sa, Render b sb, Settle 0 ca, Settle 0 cb] =
           ha\<lparr>deps := Some b, inflight := [],
              visible := (case ob of Inl _ \<Rightarrow> id | Inr rb \<Rightarrow> article_commit b rb)
                           ((case oa of Inl _ \<Rightarrow> id | Inr ra \<Rightarrow> article_commit a ra) (visible ha))\<rparr>"
  unfolding usePageBySlug_def useArticleBySlug_def
  by (intro conjI; (rule race_out_of_order [OF hp ab fa fb] | rule race_in_order [OF hp ab fa fb]
        | rule race_out_of_order [OF ha ab fa fb] | rule race_in_order [OF ha ab fa fb]))

theorem completion_order_decides_witness:
  "run (usePageBySlug ''/wknd'') (mount page_init)
     [Render ''home'' [], Render ''about'' [],
      Settle 1 (\<lambda>_ _. Resolves (JObj [(''data'', JObj [(''pageList'',
         JObj [(''items'', JArr [JObj [(''title'', JStr ''About'')]])])])])),
      Settle 0 (\<lambda>_ _. Rejects (ToJSONReturns (JObj [(''message'', JStr ''Request failed'')])))]
   = \<lparr>visible = \<lparr>data = JObj [(''title'', JStr ''About'')], error = JStr ''Request failed'',
                   references = JUndefined\<rparr>,
      deps = Some ''about'', inflight = []\<rparr>
   \<and> run (useArticleBySlug ''/wknd'') (mount content_init)
     [Render ''home'' [], Render ''about'' [],
      Settle 0 (\<lambda>_ _. Rejects (ToJSONReturns (JObj [(''message'', JStr ''Request failed'')]))),
      Settle 0 (\<lambda>_ _. Resolves (JObj [(''data'', JObj [(''pageList'',
         JObj [(''items'', JArr [JObj [(''title'', JStr ''About'')]])])])]))]
   = \<lparr>visible = \<lparr>data = JNull, error = JStr ''Cannot find Article with slug: about''\<rparr>,
      deps = Some ''about'', inflight = []\<rparr>
   \<and> run (usePageBySlug ''/wknd'') (mount page_init)
     [Render ''home'' [], Render ''about'' [],
      Settle 1 (\<lambda>_ _. Rejects (NoToJSON (JStr ''Failed to fetch''))),
      Settle 0 (\<lambda>_ _. Resolves (JObj [(''data'', JObj [(''pageList'',
         JObj [(''items'', JArr [JObj [(''title'', JStr ''Home'')]])])])]))]
   = \<lparr>visible = \<lparr>data = JObj [(''title'', JStr ''Home'')], error = JNull,
                   references = JUndefined\<rparr>,
      deps = Some ''about'', inflight = []\<rparr>"
  using
    completion_order_decides
    [where a = "''home''" and b = "''about''" and hp = "mount page_init"
       and ha = "mount content_init"
       and ca = "\<lambda>_ _. Rejects (ToJSONReturns (JObj [(''message'', JStr ''Request failed'')]))"
       and oa = "Inr \<lparr>response.data = JUndefined, err = JStr ''Request failed''\<rparr>"
       and cb = "\<lambda>_ _. Resolves (JObj [(''data'', JObj [(''pageList'',
           JObj [(''items'', JArr [JObj [(''title'', JStr ''About'')]])])])])"
       and ob = "Inr \<lparr>response.data = JObj [(''pageList'',
           JObj [(''items'', JArr [JObj [(''title'', JStr ''About'')]])])], err = JUndefined\<rparr>"
       and ep = "''/wknd''" and sa = "[]" and sb = "[]"]
    completion_order_decides
    [where a = "''home''" and b = "''about''" and hp = "mount page_init"
       and ha = "mount content_init"
       and ca = "\<lambda>_ _. Resolves (JObj [(''data'', JObj [(''pageList'',
           JObj [(''items'', JArr [JObj [(''title'', JStr ''Home'')]])])])])"
       and oa = "Inr \<lparr>response.data = JObj [(''pageList'',
           JObj [(''items'', JArr [JObj [(''title'', JStr ''Home'')]])])], err = JUndefined\<rparr>"
       and cb = "\<lambda>_ _. Rejects (NoToJSON (JStr ''Failed to fetch''))"
       and ob = "Inl TypeError"
       and ep = "''/wknd''" and sa = "[]" and sb = "[]"]
  by (simp add: mount_def page_init_def content_init_def fetchPersistedQuery_def
      page_commit_def article_commit_def)

text \<open>
  C3 (as stated): when the slug changes, the state is reset to Pending (data,
  references and error cleared) before the outcome of the new fetch is committed. It is
  not: after the page for \<^verbatim>\<open>a\<close> is resolved and the slug changes to \<^verbatim>\<open>b\<close>, the
  fetch for \<^verbatim>\<open>b\<close> is in flight and the state still holds the page of \<^verbatim>\<open>a\<close>.
\<close>

theorem no_reset_on_slug_change_counterexample:
  "run (usePageBySlug ''/wknd'') (mount page_init)
     [Render ''a'' [],
      Settle 0 (\<lambda>_ _. Resolves (JObj [(''data'', JObj [(''pageList'',
         JObj [(''items'', JArr [JObj [(''slug'', JStr ''a'')]]), (''_references'', JArr [])])])])),
      Render ''b'' []]
   = \<lparr>visible = \<lparr>data = JObj [(''slug'', JStr ''a'')], error = JNull, references = JArr []\<rparr>,
      deps = Some ''b'',
      inflight = [(''b'', \<lparr>persistedQueryName = ''/wknd/page-by-slug'',
                             queryParameters = JObj [(''slug'', JStr ''b'')]\<rparr>)]\<rparr>"
  by (simp add: usePageBySlug_def mount_def page_init_def page_request_def
      fetchPersistedQuery_def page_commit_def)

text \<open>
  C3 (amended): for every by-slug hook instance, the first fetch cycle takes the
  Content Result from Pending to Errored (a non-empty error, data still \<^verbatim>\<open>null\<close>) or to
  Resolved (data is \<^verbatim>\<open>items[0]\<close> of the one-item collection, error still \<^verbatim>\<open>null\<close>) when
  \<^verbatim>\<open>fetchPersistedQuery\<close> returns, and leaves it Pending when \<^verbatim>\<open>fetchPersistedQuery\<close>
  rejects. With no fetch in flight the state is terminal until the slug changes. When
  the slug changes, the state is not reset: a render leaves data, references and error
  as they are, and the new fetch cycle, started with no other fetch in flight, commits
  its outcome over them when \<^verbatim>\<open>fetchPersistedQuery\<close> returns, and leaves them as they
  are when it rejects.
\<close>

theorem transitions_without_reset:
  assumes f: "\<And>n p. fetchPersistedQuery c n p = out"
  shows "(let v = visible (run (usePageBySlug ep) (mount page_init) [Render k s, Settle 0 c]) in
            case out of
              Inl _ \<Rightarrow> v = page_init
            | Inr resp \<Rightarrow>
                (truthy (error v) \<and> data v = JNull \<and> references v = JNull) \<or>
                (error v = JNull
                 \<and> data v = index0 (js_get (js_get (response.data resp) ''pageList'') ''items'')
                 \<and> references v =
                     js_get (js_get (response.data resp) ''pageList'') ''_references''))
       \<and> (let v = visible (run (useArticleBySlug ep) (mount content_init) [Render k s, Settle 0 c]) in
            case out of
              Inl _ \<Rightarrow> v = content_init
            | Inr resp \<Rightarrow>
                (truthy (error v) \<and> data v = JNull) \<or>
                (error v = JNull
                 \<and> data v = index0 (js_get (js_get (response.data resp) ''articleList'') ''items'')))
       \<and> (inflight hp = [] \<longrightarrow> usePageBySlug ep hp (Settle i c') = hp)
       \<and> (inflight ha = [] \<longrightarrow> useArticleBySlug ep ha (Settle i c') = ha)
       \<and> (deps hp = Some k \<longrightarrow> usePageBySlug ep hp (Render k s) = hp)
       \<and> (deps ha = Some k \<longrightarrow> useArticleBySlug ep ha (Render k s) = ha)
       \<and> visible (usePageBySlug ep hp (Render k' s)) = visible hp
       \<and> visible (useArticleBySlug ep ha (Render k' s)) = visible ha
       \<and> (inflight hp = [] \<and> deps hp \<noteq> Some k' \<longrightarrow>
            visible (run (usePageBySlug ep) hp [Render k' s, Settle 0 c]) =
              (case out of Inl _ \<Rightarrow> visible hp | Inr resp \<Rightarrow> page_commit k' resp (visible hp)))
       \<and> (inflight ha = [] \<and> deps ha \<noteq> Some k' \<longrightarrow>
            visible (run (useArticleBySlug ep) ha [Render k' s, Settle 0 c]) =
              (case out of Inl _ \<Rightarrow> visible ha | Inr resp \<Rightarrow> article_commit k' resp (visible ha)))"
proof -
  have pv: "visible (run (usePageBySlug ep) (mount page_init) [Render k s, Settle 0 c]) =
            (case out of Inl _ \<Rightarrow> page_init | Inr resp \<Rightarrow> page_commit k resp page_init)"
    unfolding usePageBySlug_def
    by (subst cycle_any [OF _ _ f, of "mount page_init" k])
       (simp_all add: mount_def split: sum.splits)
  have av: "visible (run (useArticleBySlug ep) (mount content_init) [Render k s, Settle 0 c]) =
            (case out of Inl _ \<Rightarrow> content_init | Inr resp \<Rightarrow> article_commit k resp content_init)"
    unfolding useArticleBySlug_def
    by (subst cycle_any [OF _ _ f, of "mount content_init" k])
       (simp_all add: mount_def split: sum.splits)
  have P1: "let v = visible (run (usePageBySlug ep) (mount page_init) [Render k s, Settle 0 c]) in
            case out of
              Inl _ \<Rightarrow> v = page_init
            | Inr resp \<Rightarrow>
                (truthy (error v) \<and> data v = JNull \<and> references v = JNull) \<or>
                (error v = JNull
                 \<and> data v = index0 (js_get (js_get (response.data resp) ''pageList'') ''items'')
                 \<and> references v =
                     js_get (js_get (response.data resp) ''pageList'') ''_references'')"
    by (simp only: pv Let_def) (cases out; simp add: page_init_def page_commit_def Let_def)
  have A1: "let v = visible (run (useArticleBySlug ep) (mount content_init) [Render k s, Settle 0 c]) in
            case out of
              Inl _ \<Rightarrow> v = content_init
            | Inr resp \<Rightarrow>
                (truthy (error v) \<and> data v = JNull) \<or>
                (error v = JNull
                 \<and> data v = index0 (js_get (js_get (response.data resp) ''articleList'') ''items''))"
    by (simp only: av Let_def) (cases out; simp add: content_init_def article_commit_def Let_def)
  have P2: "inflight hp = [] \<longrightarrow> usePageBySlug ep hp (Settle i c') = hp"
    unfolding usePageBySlug_def by simp
  have A2: "inflight ha = [] \<longrightarrow> useArticleBySlug ep ha (Settle i c') = ha"
    unfolding useArticleBySlug_def by simp
  have P3: "deps hp = Some k \<longrightarrow> usePageBySlug ep hp (Render k s) = hp"
    unfolding usePageBySlug_def by simp
  have A3: "deps ha = Some k \<longrightarrow> useArticleBySlug ep ha (Render k s) = ha"
    unfolding useArticleBySlug_def by simp
  have P4: "visible (usePageBySlug ep hp (Render k' s)) = visible hp"
    unfolding usePageBySlug_def by (rule hook_step_Render_visible)
  have A4: "visible (useArticleBySlug ep ha (Render k' s)) = visible ha"
    unfolding useArticleBySlug_def by (rule hook_step_Render_visible)
  have P5: "inflight hp = [] \<and> deps hp \<noteq> Some k' \<longrightarrow>
            visible (run (usePageBySlug ep) hp [Render k' s, Settle 0 c]) =
              (case out of Inl _ \<Rightarrow> visible hp | Inr resp \<Rightarrow> page_commit k' resp (visible hp))"
  proof
    assume h: "inflight hp = [] \<and> deps hp \<noteq> Some k'"
    show "visible (run (usePageBySlug ep) hp [Render k' s, Settle 0 c]) =
              (case out of Inl _ \<Rightarrow> visible hp | Inr resp \<Rightarrow> page_commit k' resp (visible hp))"
      unfolding usePageBySlug_def
      by (subst cycle_any [OF _ _ f, of hp k']) (simp_all add: h)
  qed
  have A5: "inflight ha = [] \<and> deps ha \<noteq> Some k' \<longrightarrow>
            visible (run (useArticleBySlug ep) ha [Render k' s, Settle 0 c]) =
              (case out of Inl _ \<Rightarrow> visible ha | Inr resp \<Rightarrow> article_commit k' resp (visible ha))"
  proof
    assume h: "inflight ha = [] \<and> deps ha \<noteq> Some k'"
    show "visible (run (useArticleBySlug ep) ha [Render k' s, Settle 0 c]) =
              (case out of Inl _ \<Rightarrow> visible ha | Inr resp \<Rightarrow> article_commit k' resp (visible ha))"
      unfolding useArticleBySlug_def
      by (subst cycle_any [OF _ _ f, of ha k']) (simp_all add: h)
  qed
  from P1 A1 P2 A2 P3 A3 P4 A4 P5 A5 show ?thesis by blast
qed

theorem transitions_without_reset_witness:
  "visible (run (usePageBySlug ''/wknd'')
      \<lparr>visible = \<lparr>data = JObj [(''slug'', JStr ''a'')], error = JNull, references = JArr []\<rparr>,
        deps = Some ''a'', inflight = []\<rparr>
      [Render ''b'' [],
       Settle 0 (\<lambda>_ _. Rejects (ToJSONReturns (JObj [(''message'', JStr ''Request failed'')])))])
   = \<lparr>data = JObj [(''slug'', JStr ''a'')], error = JStr ''Request failed'',
      references = JArr []\<rparr>
   \<and> visible (run (useArticleBySlug ''/wknd'')
      \<lparr>visible = \<lparr>data = JObj [(''slug'', JStr ''a'')], error = JNull\<rparr>,
        deps = Some ''a'', inflight = []\<rparr>
      [Render ''b'' [],
       Settle 0 (\<lambda>_ _. Rejects (ToJSONReturns (JObj [(''message'', JStr ''Request failed'')])))])
   = \<lparr>data = JObj [(''slug'', JStr ''a'')], error = JStr ''Request failed''\<rparr>
   \<and> usePageBySlug ''/wknd''
      \<lparr>visible = \<lparr>data = JObj [(''slug'', JStr ''a'')], error = JNull, references = JArr []\<rparr>,
        deps = Some ''a'', inflight = []\<rparr> (Render ''a'' [])
   = \<lparr>visible = \<lparr>data = JObj [(''slug'', JStr ''a'')], error = JNull, references = JArr []\<rparr>,
        deps = Some ''a'', inflight = []\<rparr>
   \<and> visible (run (usePageBySlug ''/wknd'') (mount page_init)
      [Render ''a'' [], Settle 0 (\<lambda>_ _. Rejects (NoToJSON (JStr ''Failed to fetch'')))])
   = page_init"
  using
    transitions_without_reset
    [where c = "\<lambda>_ _. Rejects (ToJSONReturns (JObj [(''message'', JStr ''Request failed'')]))"
       and out = "Inr \<lparr>response.data = JUndefined, err = JStr ''Request failed''\<rparr>"
       and ep = "''/wknd''" and k = "''a''" and s = "[]"
       and hp = "\<lparr>visible = \<lparr>data = JObj [(''slug'', JStr ''a'')], error = JNull,
                    references = JArr []\<rparr>, deps = Some ''a'', inflight = []\<rparr>"
       and i = 0 and c' = "\<lambda>_ _. Resolves JNull"
       and ha = "\<lparr>visible = \<lparr>data = JObj [(''slug'', JStr ''a'')], error = JNull\<rparr>,
                  deps = Some ''a'', inflight = []\<rparr>"
       and k' = "''b''"]
    transitions_without_reset
    [where c = "\<lambda>_ _. Rejects (NoToJSON (JStr ''Failed to fetch''))"
       and out = "Inl TypeError"
       and ep = "''/wknd''" and k = "''a''" and s = "[]"
       and hp = "\<lparr>visible = \<lparr>data = JObj [(''slug'', JStr ''a'')], error = JNull,
                    references = JArr []\<rparr>, deps = Some ''a'', inflight = []\<rparr>"
       and i = 0 and c' = "\<lambda>_ _. Resolves JNull"
       and ha = "\<lparr>visible = \<lparr>data = JObj [(''slug'', JStr ''a'')], error = JNull\<rparr>,
                  deps = Some ''a'', inflight = []\<rparr>"
       and k' = "''b''"]
  by (simp add: fetchPersistedQuery_def page_commit_def article_commit_def)

text \<open>
  C2 (as stated): in every reachable state, data and error are never both set. They
  are: the article for \<^verbatim>\<open>a\<close> is resolved, the slug changes to \<^verbatim>\<open>b\<close> and the fetch for
  \<^verbatim>\<open>b\<close> fails; \<^verbatim>\<open>setError\<close> does not clear \<^verbatim>\<open>data\<close>.
\<close>

theorem data_and_error_counterexample:
  "run (useArticleBySlug ''/wknd'') (mount content_init)
     [Render ''a'' [],
      Settle 0 (\<lambda>_ _. Resolves (JObj [(''data'', JObj [(''articleList'',
         JObj [(''items'', JArr [JObj [(''slug'', JStr ''a'')]])])])])),
      Render ''b'' [],
      Settle 0 (\<lambda>_ _. Rejects (ToJSONReturns (JObj [(''message'', JStr ''Request failed'')])))]
   = \<lparr>visible = \<lparr>data = JObj [(''slug'', JStr ''a'')], error = JStr ''Request failed''\<rparr>,
      deps = Some ''b'', inflight = []\<rparr>"
  by (simp add: useArticleBySlug_def mount_def content_init_def article_request_def
      fetchPersistedQuery_def article_commit_def)

text \<open>
  C2 (amended): in every state that \<^verbatim>\<open>useArticles\<close> reaches from its mount, and in
  every state that \<^verbatim>\<open>usePageBySlug\<close> or \<^verbatim>\<open>useArticleBySlug\<close> reaches from its mount
  while the slug has not changed, \<^verbatim>\<open>data\<close> is \<^verbatim>\<open>null\<close> or \<^verbatim>\<open>error\<close> is \<^verbatim>\<open>null\<close>: the
  Content Result never has both populated content and an error.
\<close>

theorem no_mixed_result_while_slug_unchanged:
  "(data (visible (run (useArticles ep) (mount content_init) evl)) = JNull \<or>
    error (visible (run (useArticles ep) (mount content_init) evl)) = JNull)
   \<and> ((\<forall>e\<in>set evp. \<forall>k' s. e = Render k' s \<longrightarrow> k' = k) \<longrightarrow>
        data (visible (run (usePageBySlug ep) (mount page_init) evp)) = JNull \<or>
        error (visible (run (usePageBySlug ep) (mount page_init) evp)) = JNull)
   \<and> ((\<forall>e\<in>set eva. \<forall>k' s. e = Render k' s \<longrightarrow> k' = k) \<longrightarrow>
        data (visible (run (useArticleBySlug ep) (mount content_init) eva)) = JNull \<or>
        error (visible (run (useArticleBySlug ep) (mount content_init) eva)) = JNull)"
proof (intro conjI impI)
  show "data (visible (run (useArticles ep) (mount content_init) evl)) = JNull \<or>
        error (visible (run (useArticles ep) (mount content_init) evl)) = JNull"
    unfolding useArticles_def
    by (rule single_key_invariant
          [where P = "\<lambda>v. data v = JNull \<or> error v = JNull" and k = "()"])
       (simp_all add: content_init_def articles_commit_init [unfolded content_init_def])
next
  assume "\<forall>e\<in>set evp. \<forall>k' s. e = Render k' s \<longrightarrow> k' = k"
  then show "data (visible (run (usePageBySlug ep) (mount page_init) evp)) = JNull \<or>
        error (visible (run (usePageBySlug ep) (mount page_init) evp)) = JNull"
    unfolding usePageBySlug_def
    by (intro single_key_invariant
          [where P = "\<lambda>v. data v = JNull \<or> error v = JNull" and k = k])
       (simp_all add: page_init_def page_commit_init [unfolded page_init_def])
next
  assume "\<forall>e\<in>set eva. \<forall>k' s. e = Render k' s \<longrightarrow> k' = k"
  then show "data (visible (run (useArticleBySlug ep) (mount content_init) eva)) = JNull \<or>
        error (visible (run (useArticleBySlug ep) (mount content_init) eva)) = JNull"
    unfolding useArticleBySlug_def
    by (intro single_key_invariant
          [where P = "\<lambda>v. data v = JNull \<or> error v = JNull" and k = k])
       (simp_all add: content_init_def article_commit_init [unfolded content_init_def])
qed

theorem no_mixed_result_while_slug_unchanged_witness:
  "error (visible (run (usePageBySlug ''/wknd'') (mount page_init)
      [Render ''home'' [],
       Settle 0 (\<lambda>_ _. Resolves (JObj [(''data'', JObj [(''pageList'',
          JObj [(''items'', JArr [JObj [(''title'', JStr ''Home'')]])])])])),
       Render ''home'' [(''variation'', ''summer'')],
       Settle 0 (\<lambda>_ _. Rejects (ToJSONReturns (JObj [(''message'', JStr ''Request failed'')])))]))
   = JNull
   \<and> data (visible (run (useArticleBySlug ''/wknd'') (mount content_init)
      [Render ''surfing'' [],
       Settle 0 (\<lambda>_ _. Rejects (ToJSONReturns (JObj [(''message'', JStr ''Request failed'')]))),
       Render ''surfing'' []]))
   = JNull"
  using no_mixed_result_while_slug_unchanged
    [of "''/wknd''" "[]"
        "[Render ''home'' [],
          Settle 0 (\<lambda>_ _. Resolves (JObj [(''data'', JObj [(''pageList'',
             JObj [(''items'', JArr [JObj [(''title'', JStr ''Home'')]])])])])),
          Render ''home'' [(''variation'', ''summer'')],
          Settle 0 (\<lambda>_ _. Rejects (ToJSONReturns (JObj [(''message'', JStr ''Request failed'')])))]"
        "''home''"]
    no_mixed_result_while_slug_unchanged
    [of "''/wknd''" "[]" "[]" "''surfing''"
        "[Render ''surfing'' [],
          Settle 0 (\<lambda>_ _. Rejects (ToJSONReturns (JObj [(''message'', JStr ''Request failed'')]))),
          Render ''surfing'' []]"]
  by (simp add: usePageBySlug_def useArticleBySlug_def mount_def page_init_def content_init_def
      page_request_def article_request_def fetchPersistedQuery_def page_commit_def
      article_commit_def)

end
